theory Spec2Isabelle
  imports Main "HOL-Library.Sublist"
begin

section \<open>Options and their identity keys\<close>

text \<open>
  \<^verbatim>\<open>type OptionValue = string | number\<close> and
  \<^verbatim>\<open>T extends OptionType | string\<close>: an option is a bare string or an object with a
  \<^verbatim>\<open>value\<close> and a \<^verbatim>\<open>label\<close>. Numeric keys are integers here; strict equality
  \<^verbatim>\<open>===\<close> of two keys is equality of the datatype (a string never equals a number).
\<close>

datatype OptionValue = StrV string | NumV int

datatype Opt = Str string | Obj OptionValue string

text \<open>JavaScript truthiness of an option: only the empty string is falsy.\<close>

fun truthy :: "Opt \<Rightarrow> bool" where
  "truthy (Str s) = (s \<noteq> [])"
| "truthy (Obj v l) = True"

text \<open>The default extractors (the default values of the two props).\<close>

fun getOptionLabel_default :: "Opt \<Rightarrow> string" where
  "getOptionLabel_default (Str s) = s"
| "getOptionLabel_default (Obj v l) = l"

fun getOptionValue_default :: "Opt \<Rightarrow> OptionValue" where
  "getOptionValue_default (Str s) = StrV s"
| "getOptionValue_default (Obj v l) = v"

section \<open>Props, state and effects\<close>

text \<open>
  A callback prop is modelled by whether the caller supplied it; each call the component
  makes through \<^verbatim>\<open>cb?.(arg)\<close> is an effect, emitted only when the callback is there.
\<close>

record AutocompleteProps =
  getOptionLabel :: "Opt \<Rightarrow> string"
  getOptionValue :: "Opt \<Rightarrow> OptionValue"
  filterOption :: "Opt \<Rightarrow> string \<Rightarrow> bool"
  onChange :: bool

record AutocompleteMultipleProps = AutocompleteProps +
  disabled :: bool
  maxSelected :: "int option"
  onSearch :: bool

datatype Effect =
    OnChange "Opt list"
  | OnChangeSingle "Opt option"
  | OnSearch string
  | Focus

record PopoverState =
  is_open :: bool

record AutocompleteMultipleState = PopoverState +
  selectedOptions :: "Opt list"
  loading :: bool
  searchValue :: string

definition fire_onChange :: "('a AutocompleteProps_scheme) \<Rightarrow> Opt list \<Rightarrow> Effect list" where
  "fire_onChange p v = (if onChange p then [OnChange v] else [])"

section \<open>Multi-select controller\<close>

text \<open>
  \<^verbatim>\<open>if (maxSelected && currentValue.length > maxSelected) return;\<close>
  The first conjunct is a truthiness test: an absent prop and the number 0 are falsy.
\<close>

definition exceeds_max :: "int option \<Rightarrow> Opt list \<Rightarrow> bool" where
  "exceeds_max m currentValue =
     (case m of None \<Rightarrow> False
      | Some k \<Rightarrow> k \<noteq> 0 \<and> int (length currentValue) > k)"

definition handleSelectOptions ::
  "AutocompleteMultipleProps \<Rightarrow> Opt list \<Rightarrow> AutocompleteMultipleState
     \<Rightarrow> AutocompleteMultipleState \<times> Effect list" where
  "handleSelectOptions p currentValue s =
     (if exceeds_max (maxSelected p) currentValue then (s, [])
      else (s\<lparr>selectedOptions := currentValue, searchValue := []\<rparr>,
            fire_onChange p currentValue @ [Focus]))"

text \<open>
  \<^verbatim>\<open>handleSelectOption\<close> of the list (the toggle): membership by identity key, then
  \<^verbatim>\<open>onSelectOptions\<close>, which the controller binds to \<^verbatim>\<open>handleSelectOptions\<close>.
\<close>

definition handleSelectOption ::
  "AutocompleteMultipleProps \<Rightarrow> Opt \<Rightarrow> AutocompleteMultipleState
     \<Rightarrow> AutocompleteMultipleState \<times> Effect list" where
  "handleSelectOption p option s =
     (if disabled p then (s, [])
      else
        let isSelected =
              list_ex (\<lambda>item. getOptionValue p item = getOptionValue p option) (selectedOptions s);
            newSelected =
              (if isSelected
               then filter (\<lambda>item. getOptionValue p item \<noteq> getOptionValue p option)
                      (selectedOptions s)
               else selectedOptions s @ [option])
        in handleSelectOptions p newSelected s)"

definition handleClearOption ::
  "AutocompleteMultipleProps \<Rightarrow> Opt \<Rightarrow> AutocompleteMultipleState
     \<Rightarrow> AutocompleteMultipleState \<times> Effect list" where
  "handleClearOption p option s =
     (let newSelected =
            filter (\<lambda>item. getOptionValue p item \<noteq> getOptionValue p option) (selectedOptions s)
      in (s\<lparr>selectedOptions := newSelected\<rparr>, fire_onChange p newSelected @ [Focus]))"


text \<open>
  The effect on \<^verbatim>\<open>[value]\<close>: \<^verbatim>\<open>if (value) setSelectedOptions(value)\<close>. The prop is
  an array or absent; every array is truthy, the empty one too.
\<close>

definition syncValue :: "Opt list option \<Rightarrow> AutocompleteMultipleState \<Rightarrow> AutocompleteMultipleState" where
  "syncValue v s = (case v of None \<Rightarrow> s | Some vs \<Rightarrow> s\<lparr>selectedOptions := vs\<rparr>)"

text \<open>The state at mount: \<^verbatim>\<open>useState(value || [])\<close>, closed, not loading, empty search.\<close>

definition initialState :: "Opt list option \<Rightarrow> AutocompleteMultipleState" where
  "initialState v =
     \<lparr>is_open = False, selectedOptions = (case v of None \<Rightarrow> [] | Some vs \<Rightarrow> vs),
      loading = False, searchValue = []\<rparr>"

section \<open>Debounced external search and the loading flag\<close>

text \<open>
  The body handed to the debouncer runs three statements in order:
  \<^verbatim>\<open>setLoading(true); onSearch?.(searchValue); setLoading(false);\<close>.
  The value \<^verbatim>\<open>onSearch\<close> returns is dropped: nothing is awaited and no handler is attached.
\<close>

datatype Action = SetLoading bool | Call Effect

definition debouncedSearch_body :: "AutocompleteMultipleProps \<Rightarrow> string \<Rightarrow> Action list" where
  "debouncedSearch_body p text =
     [SetLoading True] @ (if onSearch p then [Call (OnSearch text)] else []) @ [SetLoading False]"

fun run_action ::
  "Action \<Rightarrow> AutocompleteMultipleState \<times> Effect list \<Rightarrow> AutocompleteMultipleState \<times> Effect list" where
  "run_action (SetLoading b) (s, es) = (s\<lparr>loading := b\<rparr>, es)"
| "run_action (Call e) (s, es) = (s, es @ [e])"

definition debouncedSearch_run ::
  "AutocompleteMultipleProps \<Rightarrow> string \<Rightarrow> AutocompleteMultipleState
     \<Rightarrow> AutocompleteMultipleState \<times> Effect list" where
  "debouncedSearch_run p text s = foldl (\<lambda>acc a. run_action a acc) (s, []) (debouncedSearch_body p text)"

text \<open>
  The controller in its environment. \<^verbatim>\<open>timer\<close> is the text the debouncer holds until
  its delay expires (a new keystroke replaces it: trailing debounce); \<^verbatim>\<open>inflight\<close> lists
  the external searches that were started and have not settled yet, by dispatch number.
  Whether a started search settles later (a caller's callback that returns a promise) or
  has finished when the call returns is a property of the caller's callback.
\<close>

datatype CallbackKind = Synchronous | Asynchronous

record World =
  controller :: AutocompleteMultipleState
  timer :: "string option"
  inflight :: "nat list"
  dispatched :: nat
  emitted :: "Effect list"

datatype Event = Keystroke string | TimerExpires | Settles nat

text \<open>
  \<^verbatim>\<open>handleSearch\<close>: the search text is updated at once, and the debouncer is armed only
  when \<^verbatim>\<open>onSearch\<close> was supplied.
\<close>

definition handleSearch :: "AutocompleteMultipleProps \<Rightarrow> string \<Rightarrow> World \<Rightarrow> World" where
  "handleSearch p text w =
     w\<lparr>controller := (controller w)\<lparr>searchValue := text\<rparr>,
       timer := (if onSearch p then Some text else timer w)\<rparr>"

definition timerExpires :: "AutocompleteMultipleProps \<Rightarrow> CallbackKind \<Rightarrow> World \<Rightarrow> World" where
  "timerExpires p kind w =
     (case timer w of
        None \<Rightarrow> w
      | Some text \<Rightarrow>
          (let (s', es) = debouncedSearch_run p text (controller w)
           in w\<lparr>controller := s', timer := None,
                inflight := (if onSearch p \<and> kind = Asynchronous
                             then inflight w @ [dispatched w] else inflight w),
                dispatched := (if onSearch p then Suc (dispatched w) else dispatched w),
                emitted := emitted w @ es\<rparr>))"

text \<open>A search settling runs no code of the controller: only the environment changes.\<close>

definition settles :: "nat \<Rightarrow> World \<Rightarrow> World" where
  "settles i w = w\<lparr>inflight := filter (\<lambda>j. j \<noteq> i) (inflight w)\<rparr>"

fun step :: "AutocompleteMultipleProps \<Rightarrow> CallbackKind \<Rightarrow> World \<Rightarrow> Event \<Rightarrow> World" where
  "step p kind w (Keystroke text) = handleSearch p text w"
| "step p kind w TimerExpires = timerExpires p kind w"
| "step p kind w (Settles i) = settles i w"

definition run :: "AutocompleteMultipleProps \<Rightarrow> CallbackKind \<Rightarrow> World \<Rightarrow> Event list \<Rightarrow> World" where
  "run p kind w evs = foldl (step p kind) w evs"

definition initialWorld :: "Opt list option \<Rightarrow> World" where
  "initialWorld v =
     \<lparr>controller = initialState v, timer = None, inflight = [], dispatched = 0, emitted = []\<rparr>"

section \<open>Single-select controller\<close>

record AutocompleteState = PopoverState +
  selectedOption :: "Opt option"
  initialSearch :: string

text \<open>The effect on \<^verbatim>\<open>[value]\<close>: \<^verbatim>\<open>setSelectedOption(value || null)\<close>.\<close>

definition Autocomplete_syncValue :: "Opt option \<Rightarrow> AutocompleteState \<Rightarrow> AutocompleteState" where
  "Autocomplete_syncValue v s =
     s\<lparr>selectedOption := (case v of None \<Rightarrow> None | Some x \<Rightarrow> if truthy x then Some x else None)\<rparr>"

text \<open>
  \<^verbatim>\<open>handleSelectOption\<close> of the single-select controller. Both \<^verbatim>\<open>selectedOption && ...\<close>
  and \<^verbatim>\<open>newValue ? ... : ''\<close> are truthiness tests on an option.
\<close>

definition Autocomplete_handleSelectOption ::
  "AutocompleteProps \<Rightarrow> Opt \<Rightarrow> AutocompleteState \<Rightarrow> AutocompleteState \<times> Effect list" where
  "Autocomplete_handleSelectOption p currentValue s =
     (let newValue =
            (if (case selectedOption s of
                   None \<Rightarrow> False
                 | Some sel \<Rightarrow> truthy sel \<and> getOptionValue p sel = getOptionValue p currentValue)
             then None else Some currentValue)
      in (s\<lparr>selectedOption := newValue,
            initialSearch := (case newValue of
                                None \<Rightarrow> []
                              | Some n \<Rightarrow> if truthy n then getOptionLabel p n else []),
            is_open := False\<rparr>,
          if onChange p then [OnChangeSingle newValue] else []))"

section \<open>Option filter\<close>

text \<open>
  \<^verbatim>\<open>String.prototype.includes\<close>: the argument occurs as a contiguous run of the receiver.
\<close>

fun includes_str :: "string \<Rightarrow> string \<Rightarrow> bool" where
  "includes_str [] t = (t = [])"
| "includes_str (c # s) t = (prefix t (c # s) \<or> includes_str s t)"

text \<open>
  The default \<^verbatim>\<open>filterOption\<close> closes over the \<^verbatim>\<open>getOptionLabel\<close> prop:
  \<^verbatim>\<open>getOptionLabel(option).toLowerCase().includes(searchValue.toLowerCase())\<close>.
  \<^verbatim>\<open>String.prototype.toLowerCase\<close> is a built-in of the language, with the case mapping of
  every script; it is the first parameter here, so that what is proved holds of the built-in
  itself.
\<close>

definition filterOption_default ::
  "(string \<Rightarrow> string) \<Rightarrow> (Opt \<Rightarrow> string) \<Rightarrow> Opt \<Rightarrow> string \<Rightarrow> bool" where
  "filterOption_default toLowerCase getLabel option search =
     includes_str (toLowerCase (getLabel option)) (toLowerCase search)"

definition filteredOptions :: "('a AutocompleteProps_scheme) \<Rightarrow> Opt list \<Rightarrow> string \<Rightarrow> Opt list" where
  "filteredOptions p options search = filter (\<lambda>option. filterOption p option search) options"

text \<open>
  For running examples: the case mapping of ASCII, which is what the built-in does on ASCII
  text (\<^verbatim>\<open>A\<close> to \<^verbatim>\<open>Z\<close> onto \<^verbatim>\<open>a\<close> to \<^verbatim>\<open>z\<close>, every other ASCII character kept).
  On other text the built-in maps more letters; the examples stay within ASCII.
\<close>

definition toLowerCase_ascii_char :: "char \<Rightarrow> char" where
  "toLowerCase_ascii_char c =
     (let n = (of_char c :: nat) in if 65 \<le> n \<and> n \<le> 90 then char_of (n + 32) else c)"

definition toLowerCase_ascii :: "string \<Rightarrow> string" where
  "toLowerCase_ascii s = map toLowerCase_ascii_char s"

section \<open>Virtualized list\<close>

text \<open>
  The numbers of this computation: \<^verbatim>\<open>Number.parseInt\<close> returns NaN, an infinity or an
  integer-valued number, and \<^verbatim>\<open>filteredOptions.length * 35\<close> is an integer below \<open>2^53\<close>.
  \<^verbatim>\<open>Math.min\<close> is NaN as soon as one argument is.
\<close>

datatype JSNumber = NaN | NegInfinity | Finite int | Infinity

fun Math_min :: "JSNumber \<Rightarrow> JSNumber \<Rightarrow> JSNumber" where
  "Math_min NaN y = NaN"
| "Math_min x NaN = NaN"
| "Math_min NegInfinity y = NegInfinity"
| "Math_min x NegInfinity = NegInfinity"
| "Math_min Infinity y = y"
| "Math_min x Infinity = x"
| "Math_min (Finite a) (Finite b) = Finite (min a b)"

text \<open>
  \<^verbatim>\<open>Math.min(Number.parseInt(height, 10), filteredOptions.length * 35)\<close>. The first argument
  \<open>configuredHeight\<close> is the value of \<^verbatim>\<open>Number.parseInt(height, 10)\<close>, a built-in of the
  language.
\<close>

definition listHeight :: "JSNumber \<Rightarrow> Opt list \<Rightarrow> JSNumber" where
  "listHeight configuredHeight filtered =
     Math_min configuredHeight (Finite (int (length filtered) * 35))"

text \<open>
  For running examples: \<^verbatim>\<open>Number.parseInt(str, 10)\<close> on the strings where ASCII decides.
  Leading white space is skipped, one sign is read, then the longest run of decimal digits;
  with no digit the result is NaN. The result is \<open>None\<close> (not modelled) where the built-in
  needs more than this: when a character outside ASCII follows the skipped white space (it
  may be white space of another script), and when the digit run has more than 15 digits (the
  built-in rounds beyond \<open>2^53\<close>).
\<close>

definition isWhiteSpace :: "char \<Rightarrow> bool" where
  "isWhiteSpace c = (c \<in> set [CHR 0x09, CHR 0x0A, CHR 0x0B, CHR 0x0C, CHR 0x0D, CHR 0x20])"

definition isDigit :: "char \<Rightarrow> bool" where
  "isDigit c = (let n = (of_char c :: nat) in 48 \<le> n \<and> n \<le> 57)"

definition digitValue :: "char \<Rightarrow> int" where
  "digitValue c = int (of_char c) - 48"

definition parseInt10_ascii :: "string \<Rightarrow> JSNumber option" where
  "parseInt10_ascii str =
     (let s = dropWhile isWhiteSpace str;
          (sign, r) = (case s of
                         [] \<Rightarrow> (1, [])
                       | c # cs \<Rightarrow> if c = CHR ''-'' then (- 1, cs)
                                   else if c = CHR ''+'' then (1, cs) else (1, s));
          ds = takeWhile isDigit r
      in if (case s of [] \<Rightarrow> False | c # cs \<Rightarrow> (of_char c :: nat) \<ge> 128) \<or> length ds > 15
         then None
         else if ds = [] then Some NaN
         else Some (Finite (sign * foldl (\<lambda>a c. 10 * a + digitValue c) 0 ds)))"

text \<open>
  Modelled from the spec: the visible window of the virtualization library
  (\<^verbatim>\<open>useVirtualizer\<close> and \<^verbatim>\<open>getVirtualItems\<close>, an external package whose code is not part of
  the sources). The spec has the indexes of the items overlapping
  \<^verbatim>\<open>[scrollOffset - overscan, scrollOffset + viewportHeight + overscan]\<close>, an item \<open>i\<close>
  lying between \<open>i * itemSize\<close> and \<open>(i + 1) * itemSize\<close>; the component passes
  \<^verbatim>\<open>count: filteredOptions.length\<close>, \<^verbatim>\<open>estimateSize: () => 35\<close> and \<^verbatim>\<open>overscan: 5\<close>.
\<close>

definition getVirtualItems :: "nat \<Rightarrow> int \<Rightarrow> int \<Rightarrow> nat list" where
  "getVirtualItems count scrollOffset viewportHeight =
     filter (\<lambda>i. int i * 35 \<le> scrollOffset + viewportHeight + 5
                \<and> scrollOffset - 5 \<le> (int i + 1) * 35) [0..<count]"

text \<open>
  The items that are mounted: one per virtual item,
  \<^verbatim>\<open>filteredOptions[virtualOption.index]\<close>. Reading past the end of the array gives
  \<^verbatim>\<open>undefined\<close>, which is \<open>None\<close>.
\<close>

definition renderedOptions :: "nat list \<Rightarrow> Opt list \<Rightarrow> Opt option list" where
  "renderedOptions virtualIndexes filtered =
     map (\<lambda>i. if i < length filtered then Some (filtered ! i) else None) virtualIndexes"

section \<open>Concrete configurations\<close>

text \<open>The defaults of the props, with the ASCII case mapping, for running examples.\<close>

definition defaultProps :: AutocompleteMultipleProps where
  "defaultProps =
     \<lparr>getOptionLabel = getOptionLabel_default, getOptionValue = getOptionValue_default,
      filterOption = filterOption_default toLowerCase_ascii getOptionLabel_default,
      onChange = True,
      disabled = False, maxSelected = None, onSearch = True\<rparr>"

definition defaultSingleProps :: AutocompleteProps where
  "defaultSingleProps =
     \<lparr>getOptionLabel = getOptionLabel_default, getOptionValue = getOptionValue_default,
      filterOption = filterOption_default toLowerCase_ascii getOptionLabel_default,
      onChange = True\<rparr>"

section \<open>Facts about the selection guard and the toggle\<close>

lemma exceeds_max_shorter:
  "\<not> exceeds_max m xs \<Longrightarrow> length ys \<le> length xs \<Longrightarrow> \<not> exceeds_max m ys"
  by (auto simp: exceeds_max_def split: option.splits)

lemma handleSelectOptions_selected:
  "selectedOptions (fst (handleSelectOptions p options s)) =
     (if exceeds_max (maxSelected p) options then selectedOptions s else options)"
  by (simp add: handleSelectOptions_def)

lemma handleSelectOption_selected:
  "selectedOptions (fst (handleSelectOption p x s)) =
     (let S = selectedOptions s;
          new = (if getOptionValue p x \<in> getOptionValue p ` set S
                 then filter (\<lambda>item. getOptionValue p item \<noteq> getOptionValue p x) S
                 else S @ [x])
      in if disabled p \<or> exceeds_max (maxSelected p) new then S else new)"
  by (auto simp: handleSelectOption_def handleSelectOptions_selected Let_def list_ex_iff image_iff)

lemma filter_key_length:
  "getOptionValue p x \<in> getOptionValue p ` set S \<Longrightarrow>
   Suc (length (filter (\<lambda>item. getOptionValue p item \<noteq> getOptionValue p x) S)) \<le> length S"
proof (induction S)
  case Nil
  then show ?case by simp
next
  case (Cons a S)
  show ?case
  proof (cases "getOptionValue p a = getOptionValue p x")
    case True
    then show ?thesis by (simp add: le_imp_less_Suc length_filter_le less_eq_Suc_le)
  next
    case False
    with Cons show ?thesis by auto
  qed
qed

lemma filter_key_absent:
  "getOptionValue p x \<notin> getOptionValue p ` set S \<Longrightarrow>
   filter (\<lambda>item. getOptionValue p item \<noteq> getOptionValue p x) S = S"
  by (induction S) auto

section \<open>Multi-select: replacing the selection\<close>

text \<open>
  Claim C1, as the code has it. \<^verbatim>\<open>select(options)\<close> does nothing (the state is the same and
  no effect is emitted, so \<^verbatim>\<open>onChange\<close> is not fired) whenever \<^verbatim>\<open>maxSelected\<close> is a
  non-zero number and \<^verbatim>\<open>options.length > maxSelected\<close>. Otherwise, that is when
  \<^verbatim>\<open>maxSelected\<close> is absent, is 0, or is at least \<^verbatim>\<open>options.length\<close>, the selection is
  replaced by \<^verbatim>\<open>options\<close>, the search text is cleared, \<^verbatim>\<open>onChange\<close> (when supplied) fires
  with the new full selection, and the search input is focused.
\<close>

theorem select_guard:
  "(\<forall>k. maxSelected p = Some k \<and> k \<noteq> 0 \<and> int (length options) > k
        \<longrightarrow> handleSelectOptions p options s = (s, []))
   \<and> (maxSelected p = None \<or> maxSelected p = Some 0
        \<or> (\<exists>k. maxSelected p = Some k \<and> int (length options) \<le> k)
        \<longrightarrow> handleSelectOptions p options s =
             (s\<lparr>selectedOptions := options, searchValue := []\<rparr>,
              (if onChange p then [OnChange options] else []) @ [Focus]))"
  by (auto simp: handleSelectOptions_def exceeds_max_def fire_onChange_def)

text \<open>
  The guard at \<^verbatim>\<open>maxSelected = 1\<close>: two options are rejected, one option is accepted.
\<close>

theorem select_guard_witness:
  "handleSelectOptions (defaultProps\<lparr>maxSelected := Some 1\<rparr>) [Str ''a'', Str ''b''] (initialState None)
     = (initialState None, [])
   \<and> handleSelectOptions (defaultProps\<lparr>maxSelected := Some 1\<rparr>) [Str ''a''] (initialState None)
     = ((initialState None)\<lparr>selectedOptions := [Str ''a''], searchValue := []\<rparr>,
        [OnChange [Str ''a''], Focus])"
  using select_guard [of "defaultProps\<lparr>maxSelected := Some 1\<rparr>" "[Str ''a'', Str ''b'']" "initialState None"]
    select_guard [of "defaultProps\<lparr>maxSelected := Some 1\<rparr>" "[Str ''a'']" "initialState None"]
  by (simp add: defaultProps_def)

text \<open>
  Without the exception for 0 the statement fails: with \<^verbatim>\<open>maxSelected = 0\<close> configured and
  one option, \<^verbatim>\<open>options.length > maxSelected\<close> holds and yet the call is not a no-op.
\<close>

theorem select_guard_zero_counterexample:
  "maxSelected (defaultProps\<lparr>maxSelected := Some 0\<rparr>) = Some 0
   \<and> int (length [Str ''a'']) > 0
   \<and> handleSelectOptions (defaultProps\<lparr>maxSelected := Some 0\<rparr>) [Str ''a''] (initialState None)
       \<noteq> (initialState None, [])"
  by (simp add: handleSelectOptions_def exceeds_max_def fire_onChange_def defaultProps_def)

text \<open>
  Claim C10. With \<^verbatim>\<open>maxSelected\<close> configured as 0 the maximum-selection guard is not applied:
  \<^verbatim>\<open>select(options)\<close> replaces the selection, clears the search text and fires
  \<^verbatim>\<open>onChange\<close> (when supplied) for an options list of any length.
\<close>

theorem maxSelected_zero_unguarded:
  "maxSelected p = Some 0 \<Longrightarrow>
   handleSelectOptions p options s =
     (s\<lparr>selectedOptions := options, searchValue := []\<rparr>,
      (if onChange p then [OnChange options] else []) @ [Focus])"
  by (simp add: handleSelectOptions_def exceeds_max_def fire_onChange_def)

theorem maxSelected_zero_unguarded_witness:
  "maxSelected (defaultProps\<lparr>maxSelected := Some 0\<rparr>) = Some 0
   \<and> handleSelectOptions (defaultProps\<lparr>maxSelected := Some 0\<rparr>)
        [Str ''a'', Str ''b'', Str ''c''] (initialState None)
     = ((initialState None)\<lparr>selectedOptions := [Str ''a'', Str ''b'', Str ''c''], searchValue := []\<rparr>,
        [OnChange [Str ''a'', Str ''b'', Str ''c''], Focus])"
  using maxSelected_zero_unguarded [of "defaultProps\<lparr>maxSelected := Some 0\<rparr>"
      "[Str ''a'', Str ''b'', Str ''c'']" "initialState None"]
  by (simp add: defaultProps_def)

section \<open>Multi-select: uniqueness of identity keys\<close>




section \<open>Multi-select: toggling twice\<close>

text \<open>
  Claim C3, as the code has it. When the control is not disabled, \<^verbatim>\<open>toggle(x)\<close> is
  \<^verbatim>\<open>select\<close> applied to the selection with the entries of \<^verbatim>\<open>x\<close>'s key removed (if the
  key is selected) or with \<^verbatim>\<open>x\<close> appended (if not); when disabled it does nothing.
  Toggling \<^verbatim>\<open>x\<close> twice gives back exactly the selection \<open>S\<close> when \<^verbatim>\<open>x\<close>'s key is not in
  \<open>S\<close>. When the key is in \<open>S\<close>, the control is enabled and \<open>S\<close> itself passes the
  \<^verbatim>\<open>maxSelected\<close> guard, the result is \<open>S\<close> without the entries of that key, followed by
  \<^verbatim>\<open>x\<close>. In every case where \<open>S\<close> passes the guard, the set of identity keys is that of
  \<open>S\<close>.
\<close>

theorem toggle_twice:
  fixes p x s
  defines "key \<equiv> getOptionValue p"
  defines "S \<equiv> selectedOptions s"
  defines "s2 \<equiv> fst (handleSelectOption p x (fst (handleSelectOption p x s)))"
  shows "(\<not> disabled p \<longrightarrow>
            handleSelectOption p x s =
              handleSelectOptions p
                (if key x \<in> key ` set S then filter (\<lambda>item. key item \<noteq> key x) S else S @ [x]) s)
       \<and> (disabled p \<longrightarrow> handleSelectOption p x s = (s, []))
       \<and> (key x \<notin> key ` set S \<longrightarrow> selectedOptions s2 = S)
       \<and> (key x \<in> key ` set S \<and> \<not> disabled p \<and> \<not> exceeds_max (maxSelected p) S \<longrightarrow>
            selectedOptions s2 = filter (\<lambda>item. key item \<noteq> key x) S @ [x])
       \<and> (\<not> exceeds_max (maxSelected p) S \<longrightarrow> key ` set (selectedOptions s2) = key ` set S)"
proof -
  let ?F = "filter (\<lambda>item. key item \<noteq> key x) S"
  have a: "\<not> disabled p \<longrightarrow>
            handleSelectOption p x s =
              handleSelectOptions p (if key x \<in> key ` set S then ?F else S @ [x]) s"
    by (auto simp: handleSelectOption_def Let_def list_ex_iff image_iff key_def S_def)
  have b: "disabled p \<longrightarrow> handleSelectOption p x s = (s, [])"
    by (simp add: handleSelectOption_def)
  have c: "selectedOptions s2 = S" if n: "key x \<notin> key ` set S"
  proof (cases "disabled p \<or> exceeds_max (maxSelected p) (S @ [x])")
    case True
    then have "selectedOptions (fst (handleSelectOption p x s)) = S"
      using n by (auto simp: handleSelectOption_selected Let_def key_def S_def)
    then show ?thesis
      using True n unfolding s2_def
      by (subst handleSelectOption_selected) (auto simp: Let_def key_def S_def)
  next
    case False
    then have 1: "selectedOptions (fst (handleSelectOption p x s)) = S @ [x]"
      using n by (auto simp: handleSelectOption_selected Let_def key_def S_def)
    have 2: "\<not> exceeds_max (maxSelected p) S"
      using False exceeds_max_shorter[of "maxSelected p" "S @ [x]" S] by auto
    show ?thesis
      unfolding s2_def
      using 1 2 False n filter_key_absent[of p x S]
      by (subst handleSelectOption_selected) (auto simp: Let_def key_def S_def)
  qed
  have d: "selectedOptions s2 = ?F @ [x]"
    if m: "key x \<in> key ` set S" and nd: "\<not> disabled p" and ne: "\<not> exceeds_max (maxSelected p) S"
  proof -
    have len: "Suc (length ?F) \<le> length S"
      using m filter_key_length[of p x S] by (simp add: key_def)
    have 0: "\<not> exceeds_max (maxSelected p) ?F"
      using ne exceeds_max_shorter[of "maxSelected p" S ?F] by simp
    have 1: "selectedOptions (fst (handleSelectOption p x s)) = ?F"
      using m nd 0 by (auto simp: handleSelectOption_selected Let_def key_def S_def)
    have 2: "\<not> exceeds_max (maxSelected p) (?F @ [x])"
      using ne len exceeds_max_shorter[of "maxSelected p" S "?F @ [x]"] by simp
    have 3: "key x \<notin> key ` set ?F" by auto
    show ?thesis
      unfolding s2_def
      using 1 2 3 nd
      by (subst handleSelectOption_selected) (auto simp: Let_def key_def S_def)
  qed
  have e: "key ` set (selectedOptions s2) = key ` set S" if ne: "\<not> exceeds_max (maxSelected p) S"
  proof (cases "key x \<in> key ` set S")
    case False
    then show ?thesis using c by simp
  next
    case True
    show ?thesis
    proof (cases "disabled p")
      case True
      then show ?thesis unfolding s2_def by (simp add: handleSelectOption_def S_def)
    next
      case False
      with True ne have "selectedOptions s2 = ?F @ [x]" using d by simp
      then show ?thesis using True by auto
    qed
  qed
  from a b c d e show ?thesis by blast
qed

theorem toggle_twice_witness:
  "selectedOptions (fst (handleSelectOption defaultProps (Str ''c'')
        (fst (handleSelectOption defaultProps (Str ''c'')
           (initialState (Some [Str ''a'', Str ''b'']))))))
     = [Str ''a'', Str ''b'']
   \<and> selectedOptions (fst (handleSelectOption defaultProps (Str ''a'')
        (fst (handleSelectOption defaultProps (Str ''a'')
           (initialState (Some [Str ''a'', Str ''b'']))))))
     = [Str ''b'', Str ''a'']"
proof -
  let ?s = "initialState (Some [Str ''a'', Str ''b''])"
  have sel: "selectedOptions ?s = [Str ''a'', Str ''b'']"
    by (simp add: initialState_def)
  have absent: "getOptionValue defaultProps (Str ''c'')
      \<notin> getOptionValue defaultProps ` set (selectedOptions ?s)"
    by (simp add: sel defaultProps_def)
  have member: "getOptionValue defaultProps (Str ''a'')
      \<in> getOptionValue defaultProps ` set (selectedOptions ?s)
    \<and> \<not> disabled defaultProps \<and> \<not> exceeds_max (maxSelected defaultProps) (selectedOptions ?s)"
    by (simp add: sel defaultProps_def exceeds_max_def)
  have removed: "filter (\<lambda>item. getOptionValue defaultProps item \<noteq> getOptionValue defaultProps (Str ''a''))
      (selectedOptions ?s) = [Str ''b'']"
    by (simp add: sel defaultProps_def)
  note absent_case = toggle_twice [of defaultProps "Str ''c''" ?s,
      THEN conjunct2, THEN conjunct2, THEN conjunct1, rule_format]
  note member_case = toggle_twice [of defaultProps "Str ''a''" ?s,
      THEN conjunct2, THEN conjunct2, THEN conjunct2, THEN conjunct1, rule_format]
  from absent_case [OF absent] sel
  have 1: "selectedOptions (fst (handleSelectOption defaultProps (Str ''c'')
        (fst (handleSelectOption defaultProps (Str ''c'') ?s)))) = [Str ''a'', Str ''b'']"
    by simp
  from member_case [OF member] removed
  have 2: "selectedOptions (fst (handleSelectOption defaultProps (Str ''a'')
        (fst (handleSelectOption defaultProps (Str ''a'') ?s)))) = [Str ''b'', Str ''a'']"
    by simp
  from 1 2 show ?thesis by simp
qed

text \<open>
  Toggling twice is not the identity on every selection, in two ways. Toggling the first of two selected options twice
  moves it to the end, so the sequence of keys differs; and a selection of three options under
  \<^verbatim>\<open>maxSelected = 2\<close> (as the \<^verbatim>\<open>value\<close> prop may supply) loses the toggled key for good,
  since adding it back is rejected.
\<close>

theorem toggle_twice_counterexample:
  "map getOptionValue_default
     (selectedOptions (fst (handleSelectOption defaultProps (Str ''a'')
        (fst (handleSelectOption defaultProps (Str ''a'')
           (initialState (Some [Str ''a'', Str ''b''])))))))
     \<noteq> map getOptionValue_default [Str ''a'', Str ''b'']
   \<and> getOptionValue_default ` set
       (selectedOptions (fst (handleSelectOption (defaultProps\<lparr>maxSelected := Some 2\<rparr>) (Str ''a'')
          (fst (handleSelectOption (defaultProps\<lparr>maxSelected := Some 2\<rparr>) (Str ''a'')
             (initialState (Some [Str ''a'', Str ''b'', Str ''c''])))))))
     \<noteq> getOptionValue_default ` set [Str ''a'', Str ''b'', Str ''c'']"
proof -
  have 1: "selectedOptions (fst (handleSelectOption defaultProps (Str ''a'')
        (fst (handleSelectOption defaultProps (Str ''a'')
           (initialState (Some [Str ''a'', Str ''b'']))))))
       = [Str ''b'', Str ''a'']"
    by (simp add: handleSelectOption_selected Let_def exceeds_max_def defaultProps_def
        initialState_def)
  have 2: "selectedOptions (fst (handleSelectOption (defaultProps\<lparr>maxSelected := Some 2\<rparr>) (Str ''a'')
          (fst (handleSelectOption (defaultProps\<lparr>maxSelected := Some 2\<rparr>) (Str ''a'')
             (initialState (Some [Str ''a'', Str ''b'', Str ''c'']))))))
       = [Str ''b'', Str ''c'']"
    by (simp add: handleSelectOption_selected Let_def exceeds_max_def defaultProps_def
        initialState_def)
  have 3: "StrV ''a'' \<notin> getOptionValue_default ` set [Str ''b'', Str ''c'']"
    by simp
  have 4: "StrV ''a'' \<in> getOptionValue_default ` set [Str ''a'', Str ''b'', Str ''c'']"
    by simp
  from 3 4 have "getOptionValue_default ` set [Str ''b'', Str ''c'']
      \<noteq> getOptionValue_default ` set [Str ''a'', Str ''b'', Str ''c'']"
    by metis
  with 1 2 show ?thesis by simp
qed

section \<open>Multi-select: clearing one option\<close>

text \<open>
  Claim C7, as the code has it. \<^verbatim>\<open>clearOne(x)\<close> removes exactly the entries whose identity key
  is \<^verbatim>\<open>x\<close>'s, keeping the others in order. When no entry has that key the state is unchanged
  and no error branch exists, but the call is not silent: \<^verbatim>\<open>onChange\<close> (when supplied) is
  still fired, with the unchanged selection, and the search input is focused.
\<close>

theorem clearOne_removes_matching:
  "selectedOptions (fst (handleClearOption p x s)) =
     filter (\<lambda>item. getOptionValue p item \<noteq> getOptionValue p x) (selectedOptions s)
   \<and> snd (handleClearOption p x s) =
       (if onChange p
        then [OnChange (filter (\<lambda>item. getOptionValue p item \<noteq> getOptionValue p x) (selectedOptions s))]
        else []) @ [Focus]
   \<and> (getOptionValue p x \<notin> getOptionValue p ` set (selectedOptions s) \<longrightarrow>
        fst (handleClearOption p x s) = s
        \<and> snd (handleClearOption p x s) =
            (if onChange p then [OnChange (selectedOptions s)] else []) @ [Focus])"
  by (simp add: handleClearOption_def Let_def fire_onChange_def filter_key_absent)

theorem clearOne_removes_matching_witness:
  "getOptionValue_default (Str ''z'') \<notin> getOptionValue_default ` set [Str ''a'']
   \<and> fst (handleClearOption defaultProps (Str ''z'') (initialState (Some [Str ''a''])))
       = initialState (Some [Str ''a''])
   \<and> selectedOptions (fst (handleClearOption defaultProps (Obj (StrV ''a'') ''A'')
        (initialState (Some [Str ''a'', Str ''b''])))) = [Str ''b'']"
  using clearOne_removes_matching [of defaultProps "Str ''z''" "initialState (Some [Str ''a''])"]
    clearOne_removes_matching [of defaultProps "Obj (StrV ''a'') ''A''"
      "initialState (Some [Str ''a'', Str ''b''])"]
  by (simp add: defaultProps_def initialState_def)

text \<open>
  Removing an absent option is not silent: the caller's \<^verbatim>\<open>onChange\<close> is called with the
  unchanged selection.
\<close>

theorem clearOne_absent_counterexample:
  "getOptionValue_default (Str ''z'') \<notin> getOptionValue_default ` set [Str ''a'']
   \<and> snd (handleClearOption defaultProps (Str ''z'') (initialState (Some [Str ''a''])))
       = [OnChange [Str ''a''], Focus]"
  by (simp add: handleClearOption_def Let_def fire_onChange_def defaultProps_def initialState_def)

section \<open>Resynchronisation with the value prop\<close>

text \<open>
  Claim C4, as the code has it. Single-select: every change of the \<^verbatim>\<open>value\<close> prop overwrites
  the internal selection; an absent or null value empties it, and a new option (other than the
  empty string) becomes the selection. Multi-select: every change to a present value, the empty
  list included, overwrites the internal selection with it; a change to an absent value leaves
  the internal selection as it was.
\<close>

theorem value_sync:
  "selectedOption (Autocomplete_syncValue None s1) = None
   \<and> (truthy x \<longrightarrow> selectedOption (Autocomplete_syncValue (Some x) s1) = Some x)
   \<and> selectedOptions (syncValue (Some vs) s) = vs
   \<and> syncValue None s = s"
  by (simp add: Autocomplete_syncValue_def syncValue_def)

theorem value_sync_witness:
  "truthy (Str ''a'')
   \<and> selectedOption (Autocomplete_syncValue (Some (Str ''a''))
        \<lparr>is_open = False, selectedOption = Some (Str ''b''), initialSearch = ''b''\<rparr>)
      = Some (Str ''a'')
   \<and> selectedOptions (syncValue (Some []) (initialState (Some [Str ''a'']))) = []"
  using value_sync [of "\<lparr>is_open = False, selectedOption = Some (Str ''b''), initialSearch = ''b''\<rparr>"
      "Str ''a''" "[]" "initialState (Some [Str ''a''])"]
  by simp

text \<open>
  An absent value does not overwrite the multi-select selection: after the
  prop goes from \<^verbatim>\<open>['a']\<close> to absent, the internal selection is still \<^verbatim>\<open>['a']\<close>.
\<close>

theorem value_sync_absent_counterexample:
  "selectedOptions (syncValue None (initialState (Some [Str ''a'']))) = [Str ''a'']
   \<and> selectedOptions (syncValue None (initialState (Some [Str ''a'']))) \<noteq> []"
  by (simp add: syncValue_def initialState_def)

section \<open>The loading flag\<close>

lemma debouncedSearch_run_loading: "\<not> loading (fst (debouncedSearch_run p text s))"
  by (simp add: debouncedSearch_run_def debouncedSearch_body_def)

lemma timerExpires_controller:
  "controller (timerExpires p kind w) =
     (case timer w of None \<Rightarrow> controller w
      | Some input \<Rightarrow> fst (debouncedSearch_run p input (controller w)))"
  by (simp add: timerExpires_def case_prod_beta split: option.splits)

lemma step_keeps_loading_false:
  "\<not> loading (controller w) \<Longrightarrow> \<not> loading (controller (step p kind w ev))"
proof (cases ev)
  case (Keystroke input)
  assume "\<not> loading (controller w)"
  with Keystroke show ?thesis by (simp add: handleSearch_def)
next
  case TimerExpires
  assume "\<not> loading (controller w)"
  with TimerExpires show ?thesis
    by (simp add: timerExpires_controller debouncedSearch_run_loading split: option.splits)
next
  case (Settles i)
  assume "\<not> loading (controller w)"
  with Settles show ?thesis by (simp add: settles_def)
qed

lemma run_keeps_loading_false:
  "\<not> loading (controller w) \<Longrightarrow> \<not> loading (controller (run p kind w evs))"
  unfolding run_def
  by (induction evs arbitrary: w) (auto dest: step_keeps_loading_false)

lemma timerExpires_inflight:
  "inflight (timerExpires p kind w) =
     (case timer w of None \<Rightarrow> inflight w
      | Some input \<Rightarrow> if onSearch p \<and> kind = Asynchronous
                      then inflight w @ [dispatched w] else inflight w)"
  by (simp add: timerExpires_def case_prod_beta split: option.splits)

lemma step_synchronous_inflight:
  "inflight w = [] \<Longrightarrow> inflight (step p Synchronous w ev) = []"
  by (cases ev) (simp_all add: handleSearch_def timerExpires_inflight settles_def split: option.splits)

lemma run_synchronous_inflight:
  "inflight w = [] \<Longrightarrow> inflight (run p Synchronous w evs) = []"
  unfolding run_def
  by (induction evs arbitrary: w) (auto dest: step_synchronous_inflight)

text \<open>
  Claim C5, as the code has it. The loading flag is set to true immediately before each
  external-search call and back to false immediately after the call returns, inside the same
  debounced callback, and the call's result is not awaited. So loading is false after every
  dispatch, also while a search that settles later is still in flight; no search's settling,
  stale or latest, changes the controller; and with a callback that has finished when it
  returns, no search is ever in flight between events.
\<close>

theorem loading_bracket:
  "(onSearch p \<longrightarrow>
      debouncedSearch_body p text = [SetLoading True, Call (OnSearch text), SetLoading False])
   \<and> \<not> loading (fst (debouncedSearch_run p text s))
   \<and> controller (settles i w) = controller w
   \<and> (\<not> loading (controller w) \<longrightarrow> \<not> loading (controller (run p kind w evs)))
   \<and> (inflight w = [] \<longrightarrow> inflight (run p Synchronous w evs) = [])"
  by (simp add: debouncedSearch_body_def debouncedSearch_run_loading settles_def
      run_keeps_loading_false run_synchronous_inflight)

theorem loading_bracket_witness:
  "onSearch defaultProps
   \<and> debouncedSearch_body defaultProps ''a'' = [SetLoading True, Call (OnSearch ''a''), SetLoading False]
   \<and> \<not> loading (controller (initialWorld None))
   \<and> \<not> loading (controller (run defaultProps Asynchronous (initialWorld None)
          [Keystroke ''a'', TimerExpires, Settles 0]))"
proof -
  have a: "onSearch defaultProps" by (simp add: defaultProps_def)
  have b: "\<not> loading (controller (initialWorld None))"
    by (simp add: initialWorld_def initialState_def)
  note t = loading_bracket [of defaultProps "''a''" _ _ "initialWorld None" Asynchronous
      "[Keystroke ''a'', TimerExpires, Settles 0]"]
  from t a have 1: "debouncedSearch_body defaultProps ''a''
      = [SetLoading True, Call (OnSearch ''a''), SetLoading False]" by blast
  from t b have 2: "\<not> loading (controller (run defaultProps Asynchronous (initialWorld None)
          [Keystroke ''a'', TimerExpires, Settles 0]))" by blast
  from a b 1 2 show ?thesis by blast
qed

text \<open>
  One keystroke, then the expiry of the debounce delay, with a callback that settles later.
\<close>

lemma run_example:
  "run defaultProps Asynchronous (initialWorld None) [Keystroke ''a'', TimerExpires]
   = \<lparr>controller = \<lparr>is_open = False, selectedOptions = [], loading = False, searchValue = ''a''\<rparr>,
      timer = None, inflight = [0], dispatched = Suc 0, emitted = [OnSearch ''a'']\<rparr>"
  by (simp add: run_def handleSearch_def timerExpires_def debouncedSearch_run_def
      debouncedSearch_body_def initialWorld_def initialState_def defaultProps_def)

text \<open>
  Loading is not true for as long as a search runs: here search 0 is in flight and loading is
  false.
\<close>

theorem loading_pending_counterexample:
  "inflight (run defaultProps Asynchronous (initialWorld None) [Keystroke ''a'', TimerExpires]) = [0]
   \<and> \<not> loading (controller
        (run defaultProps Asynchronous (initialWorld None) [Keystroke ''a'', TimerExpires]))"
  by (simp add: run_example)

section \<open>Single-select: activating an option\<close>

text \<open>
  Claim C6 at the empty-string option. The selected option is \<^verbatim>\<open>''\<close> and \<^verbatim>\<open>''\<close> is
  activated again: the identity keys are equal, yet the selection stays \<^verbatim>\<open>''\<close> and
  \<^verbatim>\<open>onChange\<close> is fired with \<^verbatim>\<open>''\<close>, not with \<^verbatim>\<open>null\<close>; the popover closes.
\<close>

theorem toggle_off_empty_string:
  "Autocomplete_handleSelectOption defaultSingleProps (Str [])
       \<lparr>is_open = True, selectedOption = Some (Str []), initialSearch = []\<rparr>
     = (\<lparr>is_open = False, selectedOption = Some (Str []), initialSearch = []\<rparr>,
        [OnChangeSingle (Some (Str []))])"
  by (simp add: Autocomplete_handleSelectOption_def Let_def defaultSingleProps_def)

text \<open>
  For every other selection the activation toggles as intended: equal keys empty the selection
  and fire \<^verbatim>\<open>onChange(null)\<close>, different keys select the activated option; the popover
  closes and the search text becomes the new selection's label, or empty.
\<close>

lemma Autocomplete_handleSelectOption_truthy:
  assumes "\<forall>sel. selectedOption s = Some sel \<longrightarrow> truthy sel" and "truthy currentValue"
  shows "Autocomplete_handleSelectOption p currentValue s =
    (if (\<exists>sel. selectedOption s = Some sel \<and> getOptionValue p sel = getOptionValue p currentValue)
     then (s\<lparr>selectedOption := None, initialSearch := [], is_open := False\<rparr>,
           if onChange p then [OnChangeSingle None] else [])
     else (s\<lparr>selectedOption := Some currentValue,
              initialSearch := getOptionLabel p currentValue, is_open := False\<rparr>,
           if onChange p then [OnChangeSingle (Some currentValue)] else []))"
  using assms by (auto simp: Autocomplete_handleSelectOption_def Let_def split: option.splits)

section \<open>The filter stage\<close>

lemma includes_str_sublist: "includes_str s t \<longleftrightarrow> sublist t s"
  by (induction s) (auto simp: sublist_Cons_right)

lemma includes_str_empty: "includes_str s []"
  by (induction s) auto

lemma filterOption_default_sublist:
  "filterOption_default lower getLabel option search
     \<longleftrightarrow> sublist (lower search) (lower (getLabel option))"
  by (simp add: filterOption_default_def includes_str_sublist)

text \<open>
  Claim C8. For every option list \<open>L\<close> and search term, the filter stage yields a subset of
  \<open>L\<close> in \<open>L\<close>'s relative order. The default filter accepts an option exactly when the
  lower-cased label contains the lower-cased search term as a contiguous run, so its verdict
  depends on nothing but these two lower-cased strings, and the stage with the default filter
  keeps exactly the options whose label contains the term in this sense. The lower-casing of
  the empty string being empty, the default filter accepts every option for the empty search
  term and the stage then returns all of \<open>L\<close>. The filter has no error branch: it gives a
  truth value for every option and string.
\<close>

theorem filter_stage_default:
  "subseq (filteredOptions p L search) L
   \<and> set (filteredOptions p L search) \<subseteq> set L
   \<and> (filterOption_default lower getLabel option search \<longleftrightarrow>
        (\<exists>before after. lower (getLabel option) = before @ lower search @ after))
   \<and> (lower (getLabel option) = lower (getLabel option') \<and> lower search = lower search' \<longrightarrow>
        filterOption_default lower getLabel option search
          = filterOption_default lower getLabel option' search')
   \<and> (filterOption p = filterOption_default lower (getOptionLabel p) \<longrightarrow>
        filteredOptions p L search =
          filter (\<lambda>option. sublist (lower search) (lower (getOptionLabel p option))) L)
   \<and> (lower [] = [] \<longrightarrow> filterOption_default lower getLabel option [])
   \<and> (lower [] = [] \<and> filterOption p = filterOption_default lower (getOptionLabel p) \<longrightarrow>
        filteredOptions p L [] = L)"
proof -
  have 1: "subseq (filteredOptions p L search) L"
    by (simp add: filteredOptions_def)
  have 2: "set (filteredOptions p L search) \<subseteq> set L"
    by (simp add: filteredOptions_def)
  have 3: "filterOption_default lower getLabel option search \<longleftrightarrow>
        (\<exists>before after. lower (getLabel option) = before @ lower search @ after)"
    by (simp add: filterOption_default_sublist sublist_def)
  have 4: "lower (getLabel option) = lower (getLabel option') \<and> lower search = lower search' \<longrightarrow>
        filterOption_default lower getLabel option search
          = filterOption_default lower getLabel option' search'"
    by (simp add: filterOption_default_def)
  have 5: "filterOption p = filterOption_default lower (getOptionLabel p) \<longrightarrow>
        filteredOptions p L search =
          filter (\<lambda>option. sublist (lower search) (lower (getOptionLabel p option))) L"
    by (simp add: filteredOptions_def filterOption_default_sublist)
  have 6: "lower [] = [] \<longrightarrow> filterOption_default lower getLabel option []"
    by (simp add: filterOption_default_def includes_str_empty)
  have 7: "lower [] = [] \<and> filterOption p = filterOption_default lower (getOptionLabel p) \<longrightarrow>
        filteredOptions p L [] = L"
    by (simp add: filteredOptions_def filterOption_default_def includes_str_empty)
  from 1 2 3 4 5 6 7 show ?thesis by blast
qed

text \<open>
  With the ASCII case mapping, the term \<^verbatim>\<open>AP\<close> keeps \<^verbatim>\<open>Apple\<close> and \<^verbatim>\<open>grape\<close> and drops
  \<^verbatim>\<open>banana\<close>.
\<close>

lemma toLowerCase_ascii_example:
  "toLowerCase_ascii ''AP'' = ''ap''
   \<and> toLowerCase_ascii ''Apple'' = ''apple''
   \<and> toLowerCase_ascii ''banana'' = ''banana''
   \<and> toLowerCase_ascii ''grape'' = ''grape''"
  by code_simp

lemma sublist_examples:
  "sublist ''ap'' ''apple'' \<and> \<not> sublist ''ap'' ''banana'' \<and> sublist ''ap'' ''grape''"
  by code_simp

theorem filter_stage_default_witness:
  "toLowerCase_ascii [] = []
   \<and> filterOption defaultProps = filterOption_default toLowerCase_ascii (getOptionLabel defaultProps)
   \<and> filteredOptions defaultProps [Str ''Apple'', Obj (NumV 1) ''banana'', Str ''grape''] []
       = [Str ''Apple'', Obj (NumV 1) ''banana'', Str ''grape'']
   \<and> filteredOptions defaultProps [Str ''Apple'', Obj (NumV 1) ''banana'', Str ''grape''] ''AP''
       = [Str ''Apple'', Str ''grape'']
   \<and> \<not> filterOption_default toLowerCase_ascii getOptionLabel_default (Obj (NumV 1) ''banana'') ''AP''"
proof -
  let ?L = "[Str ''Apple'', Obj (NumV 1) ''banana'', Str ''grape'']"
  have e: "toLowerCase_ascii [] = []"
    by (simp add: toLowerCase_ascii_def)
  have d: "filterOption defaultProps = filterOption_default toLowerCase_ascii (getOptionLabel defaultProps)"
    by (simp add: defaultProps_def)
  have g: "getOptionLabel defaultProps = getOptionLabel_default"
    by (simp add: defaultProps_def)
  note all = filter_stage_default [of defaultProps ?L "[]" toLowerCase_ascii,
      THEN conjunct2, THEN conjunct2, THEN conjunct2, THEN conjunct2, THEN conjunct2,
      THEN conjunct2, rule_format]
  note exact = filter_stage_default [of defaultProps ?L "''AP''" toLowerCase_ascii,
      THEN conjunct2, THEN conjunct2, THEN conjunct2, THEN conjunct2, THEN conjunct1,
      rule_format]
  note contain = filter_stage_default [of defaultProps ?L "''AP''" toLowerCase_ascii
      getOptionLabel_default "Obj (NumV 1) ''banana''",
      THEN conjunct2, THEN conjunct2, THEN conjunct1]
  from all e d have 1: "filteredOptions defaultProps ?L [] = ?L"
    by blast
  from exact [OF d] have 2: "filteredOptions defaultProps ?L ''AP'' = [Str ''Apple'', Str ''grape'']"
    by (simp add: g toLowerCase_ascii_example sublist_examples)
  have "\<not> sublist ''ap'' ''banana''"
    by (simp add: sublist_examples)
  then have "\<not> (\<exists>before after. toLowerCase_ascii (getOptionLabel_default (Obj (NumV 1) ''banana''))
      = before @ toLowerCase_ascii ''AP'' @ after)"
    by (simp add: toLowerCase_ascii_example sublist_def)
  with contain have 3: "\<not> filterOption_default toLowerCase_ascii getOptionLabel_default
      (Obj (NumV 1) ''banana'') ''AP''"
    by blast
  from e d 1 2 3 show ?thesis by blast
qed

section \<open>Height of the virtualized list\<close>

lemma getVirtualItems_bound:
  "\<forall>i \<in> set (getVirtualItems count scrollOffset viewportHeight). i < count"
  by (simp add: getVirtualItems_def)

lemma renderedOptions_in_range:
  "\<forall>i \<in> set virtualIndexes. i < length filtered \<Longrightarrow>
   renderedOptions virtualIndexes filtered = map (\<lambda>i. Some (filtered ! i)) virtualIndexes"
  by (simp add: renderedOptions_def)

lemma listHeight_zero_iff:
  "listHeight c [] = Finite 0 \<longleftrightarrow> c = Infinity \<or> (\<exists>h. c = Finite h \<and> 0 \<le> h)"
  by (cases c) (auto simp: listHeight_def min_def)

lemma listHeight_le_content:
  "listHeight c filtered = Finite l \<Longrightarrow> l \<le> int (length filtered) * 35"
  by (cases c) (auto simp: listHeight_def)

text \<open>
  Claim C9, as the code has it. With \<open>configuredHeight\<close> the number that
  \<^verbatim>\<open>Number.parseInt\<close> reads from the \<^verbatim>\<open>height\<close> prop, the rendered container height is
  \<^verbatim>\<open>Math.min(configuredHeight, itemCount * 35)\<close>: the smaller of the two for a finite
  \<open>configuredHeight\<close>, so never more than the content needs, and NaN when the prop has no
  leading number. For \<open>itemCount = 0\<close> the container height is 0 exactly when
  \<open>configuredHeight\<close> is a number that is not negative; a negative \<open>configuredHeight\<close> is
  rendered as it is. The component mounts one item per index that the virtualization library
  returns; with the visible window of the spec these are indexes below \<open>itemCount\<close>, and
  for \<open>itemCount = 0\<close> no item is mounted.
\<close>

theorem listHeight_min:
  "listHeight (Finite h) filtered = Finite (min h (int (length filtered) * 35))
   \<and> listHeight NaN filtered = NaN
   \<and> listHeight NegInfinity filtered = NegInfinity
   \<and> listHeight Infinity filtered = Finite (int (length filtered) * 35)
   \<and> (listHeight c filtered = Finite l \<longrightarrow> l \<le> int (length filtered) * 35)
   \<and> (listHeight c [] = Finite 0 \<longleftrightarrow> c = Infinity \<or> (\<exists>k. c = Finite k \<and> 0 \<le> k))
   \<and> (h < 0 \<longrightarrow> listHeight (Finite h) [] = Finite h)
   \<and> length (renderedOptions virtualIndexes filtered) = length virtualIndexes
   \<and> renderedOptions (getVirtualItems (length filtered) scrollOffset viewportHeight) filtered
       = map (\<lambda>i. Some (filtered ! i)) (getVirtualItems (length filtered) scrollOffset viewportHeight)
   \<and> (filtered = [] \<longrightarrow>
        renderedOptions (getVirtualItems (length filtered) scrollOffset viewportHeight) filtered = [])
   \<and> (i \<in> set (getVirtualItems count scrollOffset viewportHeight) \<longleftrightarrow>
        i < count \<and> int i * 35 \<le> scrollOffset + viewportHeight + 5
        \<and> scrollOffset - 5 \<le> (int i + 1) * 35)"
proof -
  have 1: "listHeight (Finite h) filtered = Finite (min h (int (length filtered) * 35))"
    by (simp add: listHeight_def)
  have 2: "listHeight NaN filtered = NaN" "listHeight NegInfinity filtered = NegInfinity"
    "listHeight Infinity filtered = Finite (int (length filtered) * 35)"
    by (simp_all add: listHeight_def)
  have 3: "listHeight c filtered = Finite l \<longrightarrow> l \<le> int (length filtered) * 35"
    using listHeight_le_content by blast
  have 4: "listHeight c [] = Finite 0 \<longleftrightarrow> c = Infinity \<or> (\<exists>k. c = Finite k \<and> 0 \<le> k)"
    by (rule listHeight_zero_iff)
  have 5: "h < 0 \<longrightarrow> listHeight (Finite h) [] = Finite h"
    by (simp add: listHeight_def)
  have 6: "length (renderedOptions virtualIndexes filtered) = length virtualIndexes"
    by (simp add: renderedOptions_def)
  have 7: "renderedOptions (getVirtualItems (length filtered) scrollOffset viewportHeight) filtered
       = map (\<lambda>i. Some (filtered ! i)) (getVirtualItems (length filtered) scrollOffset viewportHeight)"
    using getVirtualItems_bound by (rule renderedOptions_in_range)
  have 8: "filtered = [] \<longrightarrow>
        renderedOptions (getVirtualItems (length filtered) scrollOffset viewportHeight) filtered = []"
    by (simp add: getVirtualItems_def renderedOptions_def)
  have 9: "i \<in> set (getVirtualItems count scrollOffset viewportHeight) \<longleftrightarrow>
        i < count \<and> int i * 35 \<le> scrollOffset + viewportHeight + 5
        \<and> scrollOffset - 5 \<le> (int i + 1) * 35"
    by (auto simp: getVirtualItems_def)
  from 1 2 3 4 5 6 7 8 9 show ?thesis by blast
qed

text \<open>
  The default height \<^verbatim>\<open>'300px'\<close> with two items and with none.
\<close>

lemma getVirtualItems_examples:
  "getVirtualItems 0 0 300 = [] \<and> getVirtualItems 2 0 300 = [0, 1]"
  by code_simp

lemma parseInt10_ascii_examples:
  "parseInt10_ascii ''300px'' = Some (Finite 300)
   \<and> parseInt10_ascii ''-5px'' = Some (Finite (- 5))
   \<and> parseInt10_ascii ''auto'' = Some NaN"
  by (simp add: parseInt10_ascii_def isWhiteSpace_def isDigit_def digitValue_def)

theorem listHeight_min_witness:
  "parseInt10_ascii ''300px'' = Some (Finite 300)
   \<and> listHeight (Finite 300) [Str ''a'', Str ''b''] = Finite 70
   \<and> listHeight (Finite 300) [] = Finite 0
   \<and> renderedOptions (getVirtualItems 0 0 300) [] = []
   \<and> renderedOptions (getVirtualItems 2 0 300) [Str ''a'', Str ''b'']
       = [Some (Str ''a''), Some (Str ''b'')]"
proof -
  have p: "parseInt10_ascii ''300px'' = Some (Finite 300)"
    by (simp add: parseInt10_ascii_examples)
  from listHeight_min [of 300 "[Str ''a'', Str ''b'']"]
  have 1: "listHeight (Finite 300) [Str ''a'', Str ''b''] = Finite 70" by simp
  have nonneg: "Finite 300 = Infinity \<or> (\<exists>k. Finite 300 = Finite k \<and> 0 \<le> k)" by simp
  note zero = listHeight_min [of 300 "[]" "Finite 300",
      THEN conjunct2, THEN conjunct2, THEN conjunct2, THEN conjunct2, THEN conjunct2,
      THEN conjunct1, THEN iffD2]
  from zero [OF nonneg] have 2: "listHeight (Finite 300) [] = Finite 0" .
  note none = listHeight_min [of 300 "[]" NaN 0 "[]" 0 300,
      THEN conjunct2, THEN conjunct2, THEN conjunct2, THEN conjunct2, THEN conjunct2,
      THEN conjunct2, THEN conjunct2, THEN conjunct2, THEN conjunct2, THEN conjunct1,
      rule_format]
  have 3: "renderedOptions (getVirtualItems 0 0 300) [] = []"
    using none [OF refl] by simp
  note mounted = listHeight_min [of 300 "[Str ''a'', Str ''b'']" NaN 0 "[]" 0 300,
      THEN conjunct2, THEN conjunct2, THEN conjunct2, THEN conjunct2, THEN conjunct2,
      THEN conjunct2, THEN conjunct2, THEN conjunct2, THEN conjunct1]
  have len: "length [Str ''a'', Str ''b''] = 2" by simp
  have "renderedOptions (getVirtualItems 2 0 300) [Str ''a'', Str ''b'']
       = map (\<lambda>i. Some ([Str ''a'', Str ''b''] ! i)) (getVirtualItems 2 0 300)"
    using mounted unfolding len .
  then have 4: "renderedOptions (getVirtualItems 2 0 300) [Str ''a'', Str ''b'']
       = [Some (Str ''a''), Some (Str ''b'')]"
    by (simp add: getVirtualItems_examples)
  from p 1 2 3 4 show ?thesis by simp
qed

text \<open>
  With no items, the height \<^verbatim>\<open>'-5px'\<close> gives a container height of -5, not 0, and
  \<^verbatim>\<open>'auto'\<close> gives NaN.
\<close>

theorem listHeight_negative_counterexample:
  "parseInt10_ascii ''-5px'' = Some (Finite (- 5))
   \<and> listHeight (Finite (- 5)) [] = Finite (- 5)
   \<and> listHeight (Finite (- 5)) [] \<noteq> Finite 0
   \<and> parseInt10_ascii ''auto'' = Some NaN
   \<and> listHeight NaN [] = NaN"
  by (simp add: parseInt10_ascii_examples listHeight_def)

end
